theory Spec2Isabelle
  imports Main "HOL-Library.Word"
begin

unbundle bit_operations_syntax

section \<open>The LCD1602 driver: data model\<close>

text \<open>
  The driver talks to an HD44780-style controller through GPIO pins. Nothing the driver
  does returns a value to it: every pin operation and every sleep is an effect. The model
  therefore makes each driver function return the trace of effects it performs, in
  program order: pin operations, sleeps, operations on the mutexes of the structs, the
  opening of the GPIO subsystem and the send on the completion channel of an animation.

  A pin of the GPIO library is an 8-bit number, a \<open>time.Duration\<close> is a number of
  nanoseconds, and Go's \<open>int\<close> is modelled by \<open>int\<close>.
\<close>

type_synonym Pin = "8 word"

type_synonym Duration = int

type_synonym LineNumber = "8 word"

datatype mutex = writelock | linelock | line1 | line2

datatype event =
    High Pin
  | Low Pin
  | Output Pin
  | Sleep Duration
  | Lock mutex
  | Unlock mutex
  | RpioOpen
  | DoneSend bool

text \<open>\<open>type Character [8]uint8\<close>: an array of exactly eight rows.\<close>

datatype Character =
  Character "8 word" "8 word" "8 word" "8 word" "8 word" "8 word" "8 word" "8 word"

fun rows :: "Character \<Rightarrow> 8 word list" where
  "rows (Character r0 r1 r2 r3 r4 r5 r6 r7) = [r0, r1, r2, r3, r4, r5, r6, r7]"

text \<open>
  The struct \<open>LCD\<close>. Its two mutexes carry no data; they appear in the traces as
  \<^term>\<open>writelock\<close> and \<^term>\<open>linelock\<close>.
\<close>

record LCD =
  RS :: Pin
  E :: Pin
  DataPins :: "Pin list"
  LineWidth :: int

definition RSData :: bool where
  "RSData = True"

definition RSInstruction :: bool where
  "RSInstruction = False"

definition Line1 :: LineNumber where
  "Line1 = 0x80"

definition Line2 :: LineNumber where
  "Line2 = 0xC0"

definition Microsecond :: Duration where
  "Microsecond = 1000"

definition Millisecond :: Duration where
  "Millisecond = 1000 * Microsecond"

text \<open>
  The three delays are package-level variables that no code of the repository assigns
  to; they are modelled as constants.
\<close>

definition EnableDelay :: Duration where
  "EnableDelay = 1 * Microsecond"

definition ExecutionTimeDefault :: Duration where
  "ExecutionTimeDefault = 40 * Microsecond"

definition ExecutionTimeReturnHome :: Duration where
  "ExecutionTimeReturnHome = 1520 * Microsecond"

section \<open>The bus driver\<close>

text \<open>\<open>setBitToPin\<close>: the pin goes high exactly when \<open>data & position == position\<close>.\<close>

definition setBitToPin :: "Pin \<Rightarrow> 8 word \<Rightarrow> 8 word \<Rightarrow> event list" where
  "setBitToPin pin data position =
     (if data AND position = position then [High pin] else [Low pin])"

text \<open>\<open>enable\<close>: the strobe on the enable pin.\<close>

definition enable :: "LCD \<Rightarrow> Duration \<Rightarrow> event list" where
  "enable l executionTime =
     [Sleep EnableDelay, High (E l), Sleep EnableDelay, Low (E l), Sleep executionTime]"

text \<open>
  The loop \<open>for i, dataPin := range l.DataPins { setBitToPin(dataPin, data, base<<uint8(i)) }\<close>,
  started at index \<open>i\<close>. The index is converted to \<open>uint8\<close> before the shift, and a shift
  of a \<open>uint8\<close> by eight or more gives 0, as \<^const>\<open>push_bit\<close> on \<^typ>\<open>8 word\<close> does.
\<close>

fun setBits :: "8 word \<Rightarrow> nat \<Rightarrow> Pin list \<Rightarrow> 8 word \<Rightarrow> event list" where
  "setBits base i [] data = []"
| "setBits base i (dataPin # pins) data =
     setBitToPin dataPin data (push_bit (i mod 256) base) @ setBits base (Suc i) pins data"

text \<open>
  \<open>Write\<close>. The unlock of \<open>writelock\<close> is deferred in the source, so it is the last effect.
\<close>

definition Write :: "LCD \<Rightarrow> 8 word \<Rightarrow> bool \<Rightarrow> event list" where
  "Write l data mode =
     [Lock writelock]
     @ (if mode then [High (RS l)] else [Low (RS l)])
     @ map Low (DataPins l)
     @ (if length (DataPins l) = 4
        then setBits 0x10 0 (DataPins l) data
             @ enable l ExecutionTimeDefault
             @ setBits 0x01 0 (DataPins l) data
        else setBits 0x01 0 (DataPins l) data)
     @ enable l ExecutionTimeDefault
     @ [Unlock writelock]"

definition Reset :: "LCD \<Rightarrow> event list" where
  "Reset l =
     Write l 0x33 RSInstruction @ [Sleep ExecutionTimeDefault]
     @ Write l 0x32 RSInstruction @ [Sleep ExecutionTimeDefault]"

definition ReturnHome :: "LCD \<Rightarrow> event list" where
  "ReturnHome l = Write l 0x02 RSInstruction @ [Sleep ExecutionTimeReturnHome]"

definition EntryModeSet :: "LCD \<Rightarrow> bool \<Rightarrow> bool \<Rightarrow> event list" where
  "EntryModeSet l increment shift =
     (let instruction = (0x04 :: 8 word);
          instruction = (if increment then instruction OR 0x02 else instruction);
          instruction = (if shift then instruction OR 0x01 else instruction)
      in Write l instruction RSInstruction)"

definition DisplayMode :: "LCD \<Rightarrow> bool \<Rightarrow> bool \<Rightarrow> bool \<Rightarrow> event list" where
  "DisplayMode l display cursor blink =
     (let instruction = (0x08 :: 8 word);
          instruction = (if display then instruction OR 0x04 else instruction);
          instruction = (if cursor then instruction OR 0x02 else instruction);
          instruction = (if blink then instruction OR 0x01 else instruction)
      in Write l instruction RSInstruction)"

definition Clear :: "LCD \<Rightarrow> event list" where
  "Clear l = Write l 0x01 RSInstruction"

definition Initialize :: "LCD \<Rightarrow> event list" where
  "Initialize l =
     Reset l
     @ EntryModeSet l True False
     @ DisplayMode l True False False
     @ Write l 0x28 RSInstruction
     @ ReturnHome l
     @ Clear l
     @ [Sleep (10 * Millisecond)]"

text \<open>
  \<open>CreateChar\<close>: a position above 7 returns at once; otherwise the instruction
  \<open>0x40 | (position << 3)\<close> and the eight rows of the glyph as data.
\<close>

definition CreateChar :: "LCD \<Rightarrow> 8 word \<Rightarrow> Character \<Rightarrow> event list" where
  "CreateChar l position data =
     (if position > 7 then []
      else Write l (0x40 OR push_bit 3 position) False
           @ concat (map (\<lambda>x. Write l x True) (rows data)))"

text \<open>
  A bus operation as a caller of the driver sees it: a call of \<open>Write\<close> or a sleep.
  \<open>perform\<close> runs a list of them on a display; the statements below describe the
  compound operations of the driver by such lists.
\<close>

datatype busop = BusWrite "8 word" bool | BusSleep Duration

fun perform :: "LCD \<Rightarrow> busop list \<Rightarrow> event list" where
  "perform l [] = []"
| "perform l (BusWrite data mode # ops) = Write l data mode @ perform l ops"
| "perform l (BusSleep d # ops) = Sleep d # perform l ops"

section \<open>Strings and runes\<close>

text \<open>
  A Go string is a sequence of bytes; \<^typ>\<open>string\<close> is a list of 8-bit characters, and
  \<^const>\<open>length\<close> is Go's \<open>len\<close>. A \<open>range\<close> loop over a string does not visit bytes:
  it decodes UTF-8. A byte below \<open>0x80\<close> is a rune of its own; otherwise the runtime
  function \<open>decoderune\<close> decodes a sequence of two, three or four bytes, and every
  byte that does not start a well-formed sequence gives the rune \<open>0xFFFD\<close> and advances
  by one byte. A rune is an \<open>int32\<close>; all values here lie below \<open>2^21\<close>.
\<close>

definition runeError :: int where
  "runeError = 0xFFFD"

text \<open>A continuation byte: \<open>locb <= b && b <= hicb\<close>.\<close>

definition contb :: "char \<Rightarrow> bool" where
  "contb c \<longleftrightarrow> (0x80 :: int) \<le> of_char c \<and> (of_char c :: int) \<le> 0xBF"

text \<open>
  \<open>decoderune\<close> on the rest of the string from the current position: the rune and the
  number of bytes consumed.
\<close>

definition decoderune :: "string \<Rightarrow> int \<times> nat" where
  "decoderune s =
     (case s of
        [] \<Rightarrow> (runeError, 1)
      | c0 # s1 \<Rightarrow>
          (let b0 = (of_char c0 :: int) in
           if 0xC0 \<le> b0 \<and> b0 < 0xE0 then
             (case s1 of
                c1 # _ \<Rightarrow>
                  (let r = push_bit 6 (b0 AND 0x1F) OR (of_char c1 AND 0x3F) in
                   if contb c1 \<and> 0x7F < r then (r, 2) else (runeError, 1))
              | _ \<Rightarrow> (runeError, 1))
           else if 0xE0 \<le> b0 \<and> b0 < 0xF0 then
             (case s1 of
                c1 # c2 # _ \<Rightarrow>
                  (let r = push_bit 12 (b0 AND 0x0F) OR push_bit 6 (of_char c1 AND 0x3F)
                           OR (of_char c2 AND 0x3F) in
                   if contb c1 \<and> contb c2 \<and> 0x7FF < r \<and> \<not> (0xD800 \<le> r \<and> r \<le> 0xDFFF)
                   then (r, 3) else (runeError, 1))
              | _ \<Rightarrow> (runeError, 1))
           else if 0xF0 \<le> b0 \<and> b0 < 0xF8 then
             (case s1 of
                c1 # c2 # c3 # _ \<Rightarrow>
                  (let r = push_bit 18 (b0 AND 0x07) OR push_bit 12 (of_char c1 AND 0x3F)
                           OR push_bit 6 (of_char c2 AND 0x3F) OR (of_char c3 AND 0x3F) in
                   if contb c1 \<and> contb c2 \<and> contb c3 \<and> 0xFFFF < r \<and> r \<le> 0x10FFFF
                   then (r, 4) else (runeError, 1))
              | _ \<Rightarrow> (runeError, 1))
           else (runeError, 1)))"

text \<open>
  The runes a \<open>for _, c := range s\<close> loop visits, in order. After a rune of \<open>n\<close> bytes
  the loop goes on \<open>n\<close> bytes further, that is \<open>n - 1\<close> bytes after the first one.
\<close>

fun runes :: "string \<Rightarrow> int list" where
  "runes [] = []"
| "runes (c # cs) =
     (if (of_char c :: int) < 0x80 then of_char c # runes cs
      else fst (decoderune (c # cs)) # runes (drop (snd (decoderune (c # cs)) - 1) cs))"

text \<open>
  \<open>utf8.RuneCountInString\<close> counts the same runes: an erroneous or short encoding is one
  rune of one byte.
\<close>

definition RuneCountInString :: "string \<Rightarrow> nat" where
  "RuneCountInString s = length (runes s)"

section \<open>The line writer\<close>

text \<open>
  \<open>WriteLine\<close> builds the format \<open>fmt.Sprintf("%%%ds", l.LineWidth)\<close>, that is \<open>%\<close>, the
  decimal width and \<open>s\<close>, and formats the text with it. What package \<open>fmt\<close> does with
  such a format:
  \<^item> its number parser gives up on a number as soon as the digits read so far exceed
    \<open>10^6\<close>, checked before each further digit (\<open>tooLarge\<close>); so a width is accepted when
    the number without its last digit is at most \<open>10^6\<close>;
  \<^item> with an accepted width the string is padded with spaces to that many runes, counted
    by \<open>utf8.RuneCountInString\<close>: on the left, or on the right when the width is
    negative (the sign is read as the flag \<open>-\<close>); a string that already has that many
    runes is left as it is;
  \<^item> with a width that is not accepted the format has no verb, and the result is
    \<open>%!(NOVERB)\<close> followed by the report of the unused argument.
\<close>

definition tooLarge :: "int \<Rightarrow> bool" where
  "tooLarge x \<longleftrightarrow> x > 1000000 \<or> x < - 1000000"

definition widthAccepted :: "int \<Rightarrow> bool" where
  "widthAccepted w \<longleftrightarrow> \<not> tooLarge (\<bar>w\<bar> div 10)"

definition writePadding :: "int \<Rightarrow> string" where
  "writePadding n = replicate (nat n) (CHR '' '')"

definition Sprintf_width :: "int \<Rightarrow> string \<Rightarrow> string" where
  "Sprintf_width w s =
     (if widthAccepted w then
        (if 0 \<le> w then writePadding (w - int (RuneCountInString s)) @ s
         else s @ writePadding (- w - int (RuneCountInString s)))
      else ''%!(NOVERB)%!(EXTRA string='' @ s @ '')'')"

text \<open>
  The slice expression \<open>s[:n]\<close>: the first \<open>n\<close> bytes, and a run-time panic when \<open>n\<close> is
  negative or exceeds the length.
\<close>

definition sliceTo :: "string \<Rightarrow> int \<Rightarrow> string option" where
  "sliceTo s n = (if n < 0 \<or> int (length s) < n then None else Some (take (nat n) s))"

datatype status = Returned | Panicked

text \<open>
  \<open>WriteLine\<close>. The loop over the sliced string visits its runes, and \<open>uint8(c)\<close> keeps
  the low eight bits of each. When the slice expression panics nothing has been written
  yet; the deferred unlock of \<open>linelock\<close> still runs.
\<close>

definition WriteLine :: "LCD \<Rightarrow> string \<Rightarrow> LineNumber \<Rightarrow> status \<times> event list" where
  "WriteLine l s line =
     (case sliceTo (Sprintf_width (LineWidth l) s) (LineWidth l) of
        None \<Rightarrow> (Panicked, [Lock linelock, Unlock linelock])
      | Some s' \<Rightarrow>
          (Returned,
           [Lock linelock]
           @ Write l line RSInstruction
           @ concat (map (\<lambda>c. Write l (word_of_int c) RSData) (runes s'))
           @ [Unlock linelock]))"

section \<open>Custom characters\<close>

text \<open>
  \<open>SetCustomCharacters\<close> takes a value of the interface \<open>LCDI\<close> and calls only its method
  \<open>CreateChar\<close>; the model takes that method as its first argument. The loop is unrolled
  from index \<open>index\<close>, with \<open>n = len(characters)\<close>.
\<close>

fun SetCustomCharacters_from ::
  "(8 word \<Rightarrow> Character \<Rightarrow> 'e list) \<Rightarrow> nat \<Rightarrow> nat \<Rightarrow> Character list \<Rightarrow> 'e list" where
  "SetCustomCharacters_from createChar n index [] = []"
| "SetCustomCharacters_from createChar n index (chr # characters) =
     (let offset = 8 - int n + int index in
      (if offset < 0 then [] else createChar (word_of_int offset) chr)
      @ SetCustomCharacters_from createChar n (Suc index) characters)"

definition SetCustomCharacters ::
  "(8 word \<Rightarrow> Character \<Rightarrow> 'e list) \<Rightarrow> Character list \<Rightarrow> 'e list" where
  "SetCustomCharacters createChar characters =
     SetCustomCharacters_from createChar (length characters) 0 characters"

section \<open>Construction\<close>

text \<open>
  The package keeps one global, \<open>rpioPrepared\<close>. \<open>Open\<close> calls \<open>rpio.Open()\<close> of the GPIO
  library; whether that call returns an error is the environment's answer, the argument
  \<open>openErr\<close>. On an error \<open>log.Fatalln\<close> ends the process.
\<close>

record world =
  rpioPrepared :: bool

datatype 'a outcome = Done 'a | Fatal

definition Open :: "bool \<Rightarrow> world \<Rightarrow> world outcome \<times> event list" where
  "Open openErr w =
     (if openErr then (Fatal, [RpioOpen])
      else (Done (w\<lparr>rpioPrepared := True\<rparr>), [RpioOpen]))"

definition initPins :: "bool \<Rightarrow> LCD \<Rightarrow> world \<Rightarrow> world outcome \<times> event list" where
  "initPins openErr l w =
     (let outputs = [Output (RS l), Output (E l)] @ map Output (DataPins l) in
      if \<not> rpioPrepared w then
        (case Open openErr w of
           (Fatal, es) \<Rightarrow> (Fatal, es)
         | (Done w', es) \<Rightarrow> (Done w', es @ outputs))
      else (Done w, outputs))"

text \<open>
  \<open>New\<close> returns either the display, or the error made by \<open>errors.New\<close>, or does not
  return because the process has ended. \<open>rpio.Pin(d)\<close> converts an \<open>int\<close> to the 8-bit
  pin type.
\<close>

datatype new_result = NewLCD LCD | NewError string | NewFatal

definition New ::
  "bool \<Rightarrow> int \<Rightarrow> int \<Rightarrow> int list \<Rightarrow> int \<Rightarrow> world \<Rightarrow> new_result \<times> world \<times> event list" where
  "New openErr rs e data linewidth w =
     (let datalength = length data in
      if datalength \<noteq> 4 \<and> datalength \<noteq> 8
      then (NewError ''LCD requires four or eight datapins'', w, [])
      else
        (let datapins = map word_of_int data;
             l = \<lparr>RS = word_of_int rs, E = word_of_int e, DataPins = datapins,
                  LineWidth = linewidth\<rparr>
         in case initPins openErr l w of
              (Fatal, es) \<Rightarrow> (NewFatal, w, es)
            | (Done w', es) \<Rightarrow> (NewLCD l, w', es)))"


section \<open>The synchronized display\<close>











text \<open>The display of the example program: \<open>New(10, 9, []int{6, 13, 19, 26}, 16)\<close>.\<close>

definition example_lcd :: LCD where
  "example_lcd = \<lparr>RS = 10, E = 9, DataPins = [6, 13, 19, 26], LineWidth = 16\<rparr>"

text \<open>A display on an eight-pin bus, and a glyph, for the examples.\<close>

definition example_lcd8 :: LCD where
  "example_lcd8 = \<lparr>RS = 10, E = 9, DataPins = [1, 2, 3, 4, 5, 6, 7, 8], LineWidth = 16\<rparr>"

definition example_glyph :: Character where
  "example_glyph = Character 0x04 0x0E 0x1F 0x04 0x04 0x04 0x04 0x00"

text \<open>
  An implementation of \<open>CreateChar\<close> that only records the call, to observe which calls
  \<open>SetCustomCharacters\<close> makes.
\<close>

definition recorded :: "8 word \<Rightarrow> Character \<Rightarrow> (8 word \<times> Character) list" where
  "recorded position chr = [(position, chr)]"

text \<open>The text of two letters e with acute accent, in UTF-8: four bytes, two runes.\<close>

definition e_acute_twice :: string where
  "e_acute_twice = [CHR 0xC3, CHR 0xA9, CHR 0xC3, CHR 0xA9]"


section \<open>Properties of the bus driver\<close>

text \<open>The delays in nanoseconds.\<close>

lemma durations:
  "EnableDelay = 1000" "ExecutionTimeDefault = 40000" "ExecutionTimeReturnHome = 1520000"
  "10 * Millisecond = 10000000"
  by (simp_all add: EnableDelay_def ExecutionTimeDefault_def ExecutionTimeReturnHome_def
      Millisecond_def Microsecond_def)

lemma setBits_step:
  "setBits base i (p # ps) data =
     setBitToPin p data (push_bit (i mod 256) base) @ setBits base (i + 1) ps data"
  by simp

lemma list4: "length xs = 4 \<Longrightarrow> \<exists>a b c d. xs = [a, b, c, d]"
  by (auto simp: length_Suc_conv eval_nat_numeral)

lemma list8: "length xs = 8 \<Longrightarrow> \<exists>a b c d e f g h. xs = [a, b, c, d, e, f, g, h]"
proof -
  assume "length xs = 8"
  then have "length xs = Suc (Suc (Suc (Suc (Suc (Suc (Suc (Suc 0)))))))" by simp
  then show ?thesis by (simp add: length_Suc_conv) blast
qed

lemma upt4: "[0..<4] = [0, 1, 2, 3]"
  by (simp add: upt_conv_Cons)

lemma upt8: "[0..<8] = [0, 1, 2, 3, 4, 5, 6, 7]"
  by (simp add: upt_conv_Cons)

lemma Write_four:
  assumes "length (DataPins l) = 4"
  shows "Write l data mode =
       [Lock writelock, if mode then High (RS l) else Low (RS l)]
       @ map Low (DataPins l)
       @ concat (map (\<lambda>i. setBitToPin (DataPins l ! i) data (push_bit i 0x10)) [0..<4])
       @ enable l 40000
       @ concat (map (\<lambda>i. setBitToPin (DataPins l ! i) data (push_bit i 0x01)) [0..<4])
       @ enable l 40000
       @ [Unlock writelock]"
proof -
  from assms obtain a b c d where "DataPins l = [a, b, c, d]"
    using list4 by blast
  then show ?thesis
    by (simp add: Write_def setBits_step upt4 durations del: setBits.simps(2))
qed

lemma Write_eight:
  assumes "length (DataPins l) = 8"
  shows "Write l data mode =
       [Lock writelock, if mode then High (RS l) else Low (RS l)]
       @ map Low (DataPins l)
       @ concat (map (\<lambda>i. setBitToPin (DataPins l ! i) data (push_bit i 0x01)) [0..<8])
       @ enable l 40000
       @ [Unlock writelock]"
proof -
  from assms obtain a b c d e f g h where "DataPins l = [a, b, c, d, e, f, g, h]"
    using list8 by blast
  then show ?thesis
    by (simp add: Write_def setBits_step upt8 durations del: setBits.simps(2))
qed

lemma and_push_bit_one:
  fixes data :: "8 word"
  assumes "i < 8"
  shows "data AND push_bit i 1 = push_bit i 1 \<longleftrightarrow> bit data i"
proof
  assume "data AND push_bit i 1 = push_bit i 1"
  then have "bit (data AND push_bit i 1) i = bit (push_bit i 1 :: 8 word) i" by simp
  with assms show "bit data i" by (simp add: bit_simps)
next
  assume "bit data i"
  then show "data AND push_bit i 1 = push_bit i 1"
    by (intro bit_word_eqI) (auto simp: bit_simps)
qed

lemma and_power_two:
  fixes data :: "8 word"
  shows "i < 8 \<Longrightarrow> data AND 2 ^ i = 2 ^ i \<longleftrightarrow> bit data i"
  using and_push_bit_one [of i data] by simp

lemma setBitToPin_bit:
  "i < 8 \<Longrightarrow> setBitToPin p data (push_bit i 1) = [if bit data i then High p else Low p]"
  by (simp add: setBitToPin_def and_power_two)

lemma setBitToPin_bit_hi:
  "i < 4 \<Longrightarrow> setBitToPin p data (push_bit i 0x10) = [if bit data (i + 4) then High p else Low p]"
proof -
  assume "i < 4"
  have "push_bit i (0x10 :: 8 word) = 2 ^ (i + 4)"
    by (simp add: push_bit_eq_mult power_add)
  then show ?thesis using \<open>i < 4\<close> by (simp add: setBitToPin_def and_power_two)
qed

lemma count_setBits:
  "q \<notin> set pins \<Longrightarrow> count_list (setBits base i pins data) (High q) = 0"
  by (induction pins arbitrary: i) (auto simp: setBitToPin_def)

lemma count_map_Low: "count_list (map Low pins) (High q) = 0"
  by (induction pins) auto

lemma enable_pulses:
  assumes "E l \<notin> set (DataPins l)" "E l \<noteq> RS l"
  shows "count_list (Write l data mode) (High (E l)) = (if length (DataPins l) = 4 then 2 else 1)"
  using assms
  by (simp add: Write_def enable_def count_setBits count_map_Low)

text \<open>
  C2. For every byte and mode, \<open>Write\<close> takes the write lock, sets the register-select
  pin by the mode (high for data, low for an instruction) and drives every data pin low.
  With four data pins it then sets pin \<open>i\<close> from the bit at offset \<open>0x10 << i\<close>, pulses
  enable, sets pin \<open>i\<close> from the bit at offset \<open>0x01 << i\<close> and pulses enable again; with
  eight data pins it sets pin \<open>i\<close> from the bit at offset \<open>0x01 << i\<close> and pulses enable
  once. The offsets select bit \<open>i + 4\<close> and bit \<open>i\<close> of the byte. When the enable pin is
  not also a data pin or the register-select pin, it is raised exactly twice, respectively
  once, per call.
\<close>

theorem Write_pin_sequence:
  "(length (DataPins l) = 4 \<longrightarrow>
      Write l data mode =
        [Lock writelock, if mode then High (RS l) else Low (RS l)]
        @ map Low (DataPins l)
        @ concat (map (\<lambda>i. setBitToPin (DataPins l ! i) data (push_bit i 0x10)) [0..<4])
        @ enable l 40000
        @ concat (map (\<lambda>i. setBitToPin (DataPins l ! i) data (push_bit i 0x01)) [0..<4])
        @ enable l 40000
        @ [Unlock writelock]
      \<and> (E l \<notin> set (DataPins l) \<and> E l \<noteq> RS l \<longrightarrow>
           count_list (Write l data mode) (High (E l)) = 2))
   \<and> (length (DataPins l) = 8 \<longrightarrow>
      Write l data mode =
        [Lock writelock, if mode then High (RS l) else Low (RS l)]
        @ map Low (DataPins l)
        @ concat (map (\<lambda>i. setBitToPin (DataPins l ! i) data (push_bit i 0x01)) [0..<8])
        @ enable l 40000
        @ [Unlock writelock]
      \<and> (E l \<notin> set (DataPins l) \<and> E l \<noteq> RS l \<longrightarrow>
           count_list (Write l data mode) (High (E l)) = 1))
   \<and> (\<forall>i<4. setBitToPin pin data (push_bit i 0x10) =
               [if bit data (i + 4) then High pin else Low pin])
   \<and> (\<forall>i<8. setBitToPin pin data (push_bit i 0x01) =
               [if bit data i then High pin else Low pin])"
proof (intro conjI impI allI)
  assume "length (DataPins l) = 4"
  then show "Write l data mode =
        [Lock writelock, if mode then High (RS l) else Low (RS l)]
        @ map Low (DataPins l)
        @ concat (map (\<lambda>i. setBitToPin (DataPins l ! i) data (push_bit i 0x10)) [0..<4])
        @ enable l 40000
        @ concat (map (\<lambda>i. setBitToPin (DataPins l ! i) data (push_bit i 0x01)) [0..<4])
        @ enable l 40000
        @ [Unlock writelock]"
    by (rule Write_four)
next
  assume "length (DataPins l) = 4" "E l \<notin> set (DataPins l) \<and> E l \<noteq> RS l"
  then show "count_list (Write l data mode) (High (E l)) = 2"
    by (simp add: enable_pulses)
next
  assume "length (DataPins l) = 8"
  then show "Write l data mode =
        [Lock writelock, if mode then High (RS l) else Low (RS l)]
        @ map Low (DataPins l)
        @ concat (map (\<lambda>i. setBitToPin (DataPins l ! i) data (push_bit i 0x01)) [0..<8])
        @ enable l 40000
        @ [Unlock writelock]"
    by (rule Write_eight)
next
  assume "length (DataPins l) = 8" "E l \<notin> set (DataPins l) \<and> E l \<noteq> RS l"
  then show "count_list (Write l data mode) (High (E l)) = 1"
    by (simp add: enable_pulses)
next
  fix i :: nat assume "i < 4"
  then show "setBitToPin pin data (push_bit i 0x10) =
               [if bit data (i + 4) then High pin else Low pin]"
    by (rule setBitToPin_bit_hi)
next
  fix i :: nat assume "i < 8"
  then show "setBitToPin pin data (push_bit i 0x01) =
               [if bit data i then High pin else Low pin]"
    by (rule setBitToPin_bit)
qed

theorem Write_pin_sequence_witness:
  "length (DataPins example_lcd) = 4
   \<and> Write example_lcd 0xA5 RSData =
       [Lock writelock, High 10, Low 6, Low 13, Low 19, Low 26,
        Low 6, High 13, Low 19, High 26,
        Sleep 1000, High 9, Sleep 1000, Low 9, Sleep 40000,
        High 6, Low 13, High 19, Low 26,
        Sleep 1000, High 9, Sleep 1000, Low 9, Sleep 40000,
        Unlock writelock]
   \<and> count_list (Write example_lcd 0xA5 RSData) (High 9) = 2
   \<and> length (DataPins example_lcd8) = 8
   \<and> Write example_lcd8 0xA5 RSInstruction =
       [Lock writelock, Low 10, Low 1, Low 2, Low 3, Low 4, Low 5, Low 6, Low 7, Low 8,
        High 1, Low 2, High 3, Low 4, Low 5, High 6, Low 7, High 8,
        Sleep 1000, High 9, Sleep 1000, Low 9, Sleep 40000,
        Unlock writelock]
   \<and> count_list (Write example_lcd8 0xA5 RSInstruction) (High 9) = 1"
  using Write_pin_sequence [of example_lcd "0xA5" RSData 0]
    Write_pin_sequence [of example_lcd8 "0xA5" RSInstruction 0]
  by (simp add: example_lcd_def example_lcd8_def RSData_def RSInstruction_def upt4 upt8
      setBitToPin_def enable_def durations)

lemma EntryModeSet_byte: "EntryModeSet l True False = Write l 0x06 RSInstruction"
  by (simp add: EntryModeSet_def)

lemma DisplayMode_byte: "DisplayMode l True False False = Write l 0x0C RSInstruction"
  by (simp add: DisplayMode_def)

text \<open>
  C3, as amended. \<open>Initialize\<close> performs, in this order: the reset (the instructions
  \<open>0x33\<close> and \<open>0x32\<close>, each followed by the default execution delay), the entry mode set
  with increment and without shift (\<open>0x06\<close>), the display mode with the display on and
  cursor and blink off (\<open>0x0C\<close>), an instruction write of the byte \<open>0x28\<close>, the return
  home (\<open>0x02\<close>, followed by the delay of 1.52 ms), the clear (\<open>0x01\<close>) and a sleep of
  10 ms. The byte \<open>0x28\<close> has bit 5 set and bits 6 and 7 clear, so it is not a DDRAM
  address as the driver writes them: the line addresses \<open>0x80\<close> and \<open>0xC0\<close> have bit 7
  set.
\<close>

theorem Initialize_sequence:
  "Initialize l =
     Reset l @ EntryModeSet l True False @ DisplayMode l True False False
     @ Write l 0x28 RSInstruction @ ReturnHome l @ Clear l @ [Sleep 10000000]
   \<and> Reset l = perform l [BusWrite 0x33 RSInstruction, BusSleep 40000,
                          BusWrite 0x32 RSInstruction, BusSleep 40000]
   \<and> ReturnHome l = perform l [BusWrite 0x02 RSInstruction, BusSleep 1520000]
   \<and> Initialize l =
       perform l
         [BusWrite 0x33 RSInstruction, BusSleep 40000,
          BusWrite 0x32 RSInstruction, BusSleep 40000,
          BusWrite 0x06 RSInstruction,
          BusWrite 0x0C RSInstruction,
          BusWrite 0x28 RSInstruction,
          BusWrite 0x02 RSInstruction, BusSleep 1520000,
          BusWrite 0x01 RSInstruction,
          BusSleep 10000000]
   \<and> bit (0x28 :: 8 word) 5 \<and> \<not> bit (0x28 :: 8 word) 6 \<and> \<not> bit (0x28 :: 8 word) 7
   \<and> bit Line1 7 \<and> bit Line2 7"
  by (simp add: Initialize_def Reset_def ReturnHome_def Clear_def EntryModeSet_byte
      DisplayMode_byte durations Line1_def Line2_def)

text \<open>
  On the display of the example program the fourth write of \<open>Initialize\<close> is the byte
  \<open>0x28\<close>; it is neither of the two line addresses and, unlike them, has bit 7 clear.
\<close>

theorem Initialize_fourth_write_counterexample:
  "Initialize example_lcd =
     perform example_lcd
       [BusWrite 0x33 RSInstruction, BusSleep 40000,
        BusWrite 0x32 RSInstruction, BusSleep 40000,
        BusWrite 0x06 RSInstruction,
        BusWrite 0x0C RSInstruction,
        BusWrite 0x28 RSInstruction,
        BusWrite 0x02 RSInstruction, BusSleep 1520000,
        BusWrite 0x01 RSInstruction,
        BusSleep 10000000]
   \<and> \<not> bit (0x28 :: 8 word) 7
   \<and> bit Line1 7 \<and> bit Line2 7
   \<and> (0x28 :: 8 word) \<noteq> Line1 \<and> (0x28 :: 8 word) \<noteq> Line2"
  by (simp add: Initialize_def Reset_def ReturnHome_def Clear_def EntryModeSet_byte
      DisplayMode_byte durations Line1_def Line2_def)

text \<open>
  C4. \<open>enable\<close> sleeps for the enable delay, raises the enable pin, sleeps for the same
  delay, lowers the pin and sleeps for the execution time it was given. The enable delay
  is 1 microsecond, the default execution delay 40 microseconds, the return-home delay
  1520 microseconds, and \<open>Initialize\<close> ends with a sleep of 10 milliseconds after the clear.
\<close>

theorem enable_pulse_and_delays:
  "enable l executionTime =
     [Sleep 1000, High (E l), Sleep 1000, Low (E l), Sleep executionTime]
   \<and> EnableDelay = 1000
   \<and> ExecutionTimeDefault = 40000
   \<and> ExecutionTimeReturnHome = 1520000
   \<and> (\<exists>es. Initialize l = es @ Clear l @ [Sleep 10000000])"
proof -
  have "Initialize l =
      (Reset l @ EntryModeSet l True False @ DisplayMode l True False False
        @ Write l 0x28 RSInstruction @ ReturnHome l) @ Clear l @ [Sleep 10000000]"
    by (simp add: Initialize_def durations)
  then have "\<exists>es. Initialize l = es @ Clear l @ [Sleep 10000000]" by blast
  then show ?thesis by (simp add: enable_def durations)
qed

text \<open>
  C5. For a position of at most 7, \<open>CreateChar\<close> performs one instruction write, of
  \<open>0x40 | (position << 3)\<close>, followed by eight data writes, the rows of the glyph; for a
  position above 7 it does nothing at all.
\<close>

theorem CreateChar_writes:
  "(position \<le> 7 \<longrightarrow>
      CreateChar l position data =
        perform l (BusWrite (0x40 OR push_bit 3 position) RSInstruction
                   # map (\<lambda>x. BusWrite x RSData) (rows data)))
   \<and> length (rows data) = 8
   \<and> (7 < position \<longrightarrow> CreateChar l position data = [])"
  by (cases data) (auto simp add: CreateChar_def RSData_def RSInstruction_def)

theorem CreateChar_writes_witness:
  "(5 :: 8 word) \<le> 7
   \<and> CreateChar example_lcd 5 example_glyph =
       perform example_lcd
         [BusWrite 0x68 RSInstruction,
          BusWrite 0x04 RSData, BusWrite 0x0E RSData, BusWrite 0x1F RSData, BusWrite 0x04 RSData,
          BusWrite 0x04 RSData, BusWrite 0x04 RSData, BusWrite 0x04 RSData, BusWrite 0x00 RSData]
   \<and> (7 :: 8 word) < 8
   \<and> CreateChar example_lcd 8 example_glyph = []"
  using CreateChar_writes [of 5 example_lcd example_glyph]
    CreateChar_writes [of 8 example_lcd example_glyph]
  by (simp add: example_glyph_def)

section \<open>Properties of the custom-character loader\<close>

lemma SetCustomCharacters_from_eq:
  "SetCustomCharacters_from createChar n k cs =
     concat (map (\<lambda>i. if 8 - int n + int i < 0 then []
                        else createChar (word_of_int (8 - int n + int i)) (cs ! (i - k)))
                 [k..<k + length cs])"
proof (induction cs arbitrary: k)
  case Nil
  show ?case by simp
next
  case (Cons c cs)
  let ?F = "\<lambda>xs k i. if 8 - int n + int i < 0 then []
                        else createChar (word_of_int (8 - int n + int i)) (xs ! (i - k))"
  have head: "SetCustomCharacters_from createChar n k (c # cs) =
      ?F (c # cs) k k @ SetCustomCharacters_from createChar n (Suc k) cs"
    by (simp add: Let_def)
  have shift: "map (?F (c # cs) k) [Suc k..<Suc k + length cs]
             = map (?F cs (Suc k)) [Suc k..<Suc k + length cs]"
  proof (rule map_cong [OF refl])
    fix i assume "i \<in> set [Suc k..<Suc k + length cs]"
    then have "i - k = Suc (i - Suc k)" by auto
    then show "?F (c # cs) k i = ?F cs (Suc k) i" by simp
  qed
  have e: "k + length (c # cs) = Suc k + length cs"
    by simp
  have "[k..<Suc k + length cs] = k # [Suc k..<Suc k + length cs]"
    by (rule upt_conv_Cons) simp
  then have upt: "[k..<k + length (c # cs)] = k # [Suc k..<Suc k + length cs]"
    by (simp only: e)
  have "concat (map (?F (c # cs) k) [k..<k + length (c # cs)]) =
      ?F (c # cs) k k @ concat (map (?F (c # cs) k) [Suc k..<Suc k + length cs])"
    by (simp only: upt list.map concat.simps)
  also have "\<dots> = ?F (c # cs) k k @ SetCustomCharacters_from createChar n (Suc k) cs"
    by (simp only: shift Cons.IH [of "Suc k"])
  finally show ?case
    by (simp only: head)
qed

text \<open>
  C7, as amended. The loader hands the \<open>i\<close>-th of \<open>n\<close> glyphs to \<open>CreateChar\<close> with
  position \<open>8 - n + i\<close>, in order, for exactly the indices \<open>i\<close> from \<open>n - 8\<close> on (from 0
  when \<open>n\<close> is at most 8). An offset is negative, and the entry skipped, exactly when more
  than eight glyphs are supplied and \<open>i\<close> is among the first \<open>n - 8\<close>; with eight glyphs or
  fewer nothing is skipped. No offset exceeds 7.
\<close>

theorem SetCustomCharacters_positions:
  "SetCustomCharacters createChar characters =
     concat (map (\<lambda>i. createChar (word_of_int (8 - int (length characters) + int i))
                                   (characters ! i))
                 [length characters - 8..<length characters])
   \<and> (\<forall>i<length characters.
         8 - int (length characters) + int i < 0 \<longleftrightarrow> 8 < length characters \<and> i < length characters - 8)
   \<and> (\<forall>i<length characters. 8 - int (length characters) + int i \<le> 7)"
proof (intro conjI)
  let ?n = "length characters"
  let ?f = "\<lambda>i. createChar (word_of_int (8 - int ?n + int i)) (characters ! i)"
  let ?g = "\<lambda>i. if 8 - int ?n + int i < 0 then [] else ?f i"
  have split: "[0..<?n] = [0..<?n - 8] @ [?n - 8..<?n]"
    by (metis diff_le_self le0 upt_add_eq_append le_add_diff_inverse)
  have "SetCustomCharacters createChar characters = concat (map ?g [0..<?n])"
    by (simp add: SetCustomCharacters_def SetCustomCharacters_from_eq cong: if_cong)
  also have "\<dots> = concat (map ?g [0..<?n - 8]) @ concat (map ?g [?n - 8..<?n])"
    by (subst split) simp
  also have "concat (map ?g [0..<?n - 8]) = []"
  proof -
    have "\<forall>i\<in>set [0..<?n - 8]. ?g i = []" by auto
    then show ?thesis by (simp add: map_eq_conv)
  qed
  also have "map ?g [?n - 8..<?n] = map ?f [?n - 8..<?n]"
    by (rule map_cong) auto
  finally show "SetCustomCharacters createChar characters = concat (map ?f [?n - 8..<?n])"
    by simp
qed auto

theorem SetCustomCharacters_positions_witness:
  "SetCustomCharacters recorded (replicate 10 example_glyph) =
     [(0, example_glyph), (1, example_glyph), (2, example_glyph), (3, example_glyph),
      (4, example_glyph), (5, example_glyph), (6, example_glyph), (7, example_glyph)]
   \<and> length (replicate 10 example_glyph) = 10
   \<and> 8 - int (length (replicate 10 example_glyph)) + int 1 < 0
   \<and> 8 - int (length (replicate 10 example_glyph)) + int 9 \<le> 7"
  using SetCustomCharacters_positions [of recorded "replicate 10 example_glyph"]
  by (simp add: recorded_def upt_conv_Cons)

text \<open>
  Three glyphs, fewer than eight: all three are written, at the positions 5, 6 and 7,
  and none is skipped.
\<close>

theorem SetCustomCharacters_three_counterexample:
  "SetCustomCharacters recorded [example_glyph, example_glyph, example_glyph] =
     [(5, example_glyph), (6, example_glyph), (7, example_glyph)]"
  by (simp add: SetCustomCharacters_def recorded_def)

section \<open>Properties of the construction\<close>

text \<open>
  C6, as amended. With a number of data pins other than 4 and 8, \<open>New\<close> returns the
  pin-count error, with no effect at all and the global unchanged. With 4 or 8 data pins
  it returns the display, with every pin set to output, whenever the GPIO subsystem is
  already open or opens without error; when it has to be opened and that fails, the
  process ends.
\<close>

theorem New_pin_count:
  "(length data \<noteq> 4 \<and> length data \<noteq> 8 \<longrightarrow>
      New openErr rs e data linewidth w =
        (NewError ''LCD requires four or eight datapins'', w, []))
   \<and> ((length data = 4 \<or> length data = 8) \<and> (rpioPrepared w \<or> \<not> openErr) \<longrightarrow>
      New openErr rs e data linewidth w =
        (NewLCD \<lparr>RS = word_of_int rs, E = word_of_int e, DataPins = map word_of_int data,
                 LineWidth = linewidth\<rparr>,
         w\<lparr>rpioPrepared := True\<rparr>,
         (if rpioPrepared w then [] else [RpioOpen])
         @ [Output (word_of_int rs), Output (word_of_int e)]
         @ map (\<lambda>d. Output (word_of_int d)) data))
   \<and> ((length data = 4 \<or> length data = 8) \<and> \<not> rpioPrepared w \<and> openErr \<longrightarrow>
      New openErr rs e data linewidth w = (NewFatal, w, [RpioOpen]))"
  by (auto simp add: New_def initPins_def Open_def Let_def comp_def)

theorem New_pin_count_witness:
  "New False 10 9 [6, 13, 19] 16 \<lparr>rpioPrepared = False\<rparr> =
     (NewError ''LCD requires four or eight datapins'', \<lparr>rpioPrepared = False\<rparr>, [])
   \<and> New False 10 9 [6, 13, 19, 26] 16 \<lparr>rpioPrepared = False\<rparr> =
     (NewLCD example_lcd, \<lparr>rpioPrepared = True\<rparr>,
      [RpioOpen, Output 10, Output 9, Output 6, Output 13, Output 19, Output 26])
   \<and> New True 10 9 [1, 2, 3, 4, 5, 6, 7, 8] 16 \<lparr>rpioPrepared = True\<rparr> =
     (NewLCD example_lcd8, \<lparr>rpioPrepared = True\<rparr>,
      [Output 10, Output 9, Output 1, Output 2, Output 3, Output 4, Output 5, Output 6,
       Output 7, Output 8])
   \<and> New True 10 9 [1, 2, 3, 4, 5, 6, 7, 8] 16 \<lparr>rpioPrepared = False\<rparr> =
     (NewFatal, \<lparr>rpioPrepared = False\<rparr>, [RpioOpen])"
  using New_pin_count [of "[6, 13, 19]" False 10 9 16 "\<lparr>rpioPrepared = False\<rparr>"]
    New_pin_count [of "[6, 13, 19, 26]" False 10 9 16 "\<lparr>rpioPrepared = False\<rparr>"]
    New_pin_count [of "[1, 2, 3, 4, 5, 6, 7, 8]" True 10 9 16 "\<lparr>rpioPrepared = True\<rparr>"]
    New_pin_count [of "[1, 2, 3, 4, 5, 6, 7, 8]" True 10 9 16 "\<lparr>rpioPrepared = False\<rparr>"]
  by (simp add: example_lcd_def example_lcd8_def)

text \<open>
  Four data pins, and a GPIO subsystem that is not open and cannot be opened: the
  construction does not succeed.
\<close>

theorem New_four_pins_fatal_counterexample:
  "New True 10 9 [6, 13, 19, 26] 16 \<lparr>rpioPrepared = False\<rparr> =
     (NewFatal, \<lparr>rpioPrepared = False\<rparr>, [RpioOpen])"
  by (simp add: New_def initPins_def Open_def)

section \<open>Properties of the line writer\<close>

lemma widthAccepted_iff: "widthAccepted w \<longleftrightarrow> \<bar>w\<bar> \<le> 10000009"
  unfolding widthAccepted_def tooLarge_def by arith


lemma length_runes_le: "length (runes s) \<le> length s"
proof (induction s rule: runes.induct)
  case 1
  show ?case by simp
next
  case (2 c cs)
  show ?case
  proof (cases "(of_char c :: int) < 0x80")
    case True
    with 2 show ?thesis by simp
  next
    case False
    with 2 have "length (runes (drop (snd (decoderune (c # cs)) - 1) cs))
        \<le> length (drop (snd (decoderune (c # cs)) - 1) cs)"
      by simp
    also have "\<dots> \<le> length cs" by simp
    finally show ?thesis using False by simp
  qed
qed

lemma perform_writes:
  "perform l (map (\<lambda>c. BusWrite (f c) mode) xs) = concat (map (\<lambda>c. Write l (f c) mode) xs)"
  by (induction xs) simp_all

lemma sliceTo_Sprintf_width:
  assumes "0 \<le> w" "w \<le> 10000009"
  shows "sliceTo (Sprintf_width w s) w =
    Some (take (nat w) (replicate (nat w - RuneCountInString s) (CHR '' '') @ s))"
proof -
  have acc: "widthAccepted w"
    using assms by (simp add: widthAccepted_iff)
  have pad: "writePadding (w - int (RuneCountInString s)) =
      replicate (nat w - RuneCountInString s) (CHR '' '')"
    using assms by (simp add: writePadding_def nat_diff_distrib')
  have "RuneCountInString s \<le> length s"
    by (simp add: RuneCountInString_def length_runes_le)
  then have "nat w \<le> length (replicate (nat w - RuneCountInString s) (CHR '' '') @ s)"
    by simp
  then have "\<not> int (length (replicate (nat w - RuneCountInString s) (CHR '' '') @ s)) < w"
    using assms by linarith
  then show ?thesis
    using assms acc pad by (simp add: sliceTo_def Sprintf_width_def)
qed

lemma WriteLine_accepted:
  assumes "0 \<le> LineWidth l" "LineWidth l \<le> 10000009"
  shows "WriteLine l s line =
    (Returned,
     [Lock linelock]
     @ perform l (BusWrite line RSInstruction
         # map (\<lambda>c. BusWrite (word_of_int c) RSData)
             (runes (take (nat (LineWidth l))
                (replicate (nat (LineWidth l) - RuneCountInString s) (CHR '' '') @ s))))
     @ [Unlock linelock])"
  by (simp add: WriteLine_def sliceTo_Sprintf_width [OF assms] perform_writes)


lemma replicate_numeral: "replicate (numeral k) x = x # replicate (pred_numeral k) x"
  by (simp add: numeral_eq_Suc)




text \<open>
  C9, as amended. For a line width from 0 to 10000009, \<open>WriteLine\<close> pads by runes and
  cuts by bytes: the text is padded on the left with spaces up to the line width counted
  in runes, and exactly the first width bytes of the result are kept. For a text with at
  least as many runes as the width these are the first width bytes of the text itself.
  There is one data write per rune decoded from the kept bytes, so at most as many as
  the width; the cut can split a character, and the data writes can be fewer than the
  width.
\<close>

theorem WriteLine_bytes_and_runes:
  "(0 \<le> LineWidth l \<and> LineWidth l \<le> 10000009 \<longrightarrow>
      (\<exists>kept.
         sliceTo (Sprintf_width (LineWidth l) s) (LineWidth l) = Some kept
         \<and> kept = take (nat (LineWidth l))
                    (replicate (nat (LineWidth l) - RuneCountInString s) (CHR '' '') @ s)
         \<and> length kept = nat (LineWidth l)
         \<and> (LineWidth l \<le> int (RuneCountInString s) \<longrightarrow> kept = take (nat (LineWidth l)) s)
         \<and> WriteLine l s line =
             (Returned,
              [Lock linelock]
              @ perform l (BusWrite line RSInstruction
                           # map (\<lambda>c. BusWrite (word_of_int c) RSData) (runes kept))
              @ [Unlock linelock])
         \<and> length (runes kept) \<le> nat (LineWidth l)))
   \<and> sliceTo (Sprintf_width 5 (CHR ''a'' # e_acute_twice)) 5
       = Some [CHR '' '', CHR '' '', CHR ''a'', CHR 0xC3, CHR 0xA9]
   \<and> sliceTo (Sprintf_width 4 (CHR ''a'' # e_acute_twice)) 4
       = Some [CHR '' '', CHR ''a'', CHR 0xC3, CHR 0xA9]
   \<and> sliceTo (Sprintf_width 2 (CHR ''a'' # e_acute_twice)) 2 = Some [CHR ''a'', CHR 0xC3]
   \<and> runes [CHR ''a'', CHR 0xC3] = [0x61, runeError]
   \<and> length (runes [CHR '' '', CHR ''a'', CHR 0xC3, CHR 0xA9]) = 3"
proof (intro conjI impI)
  assume a: "0 \<le> LineWidth l \<and> LineWidth l \<le> 10000009"
  let ?w = "nat (LineWidth l)"
  let ?k = "take ?w (replicate (?w - RuneCountInString s) (CHR '' '') @ s)"
  have 1: "sliceTo (Sprintf_width (LineWidth l) s) (LineWidth l) = Some ?k"
    using a by (simp add: sliceTo_Sprintf_width)
  have "RuneCountInString s \<le> length s"
    by (simp add: RuneCountInString_def length_runes_le)
  then have 2: "length ?k = ?w"
    by simp
  have 3: "LineWidth l \<le> int (RuneCountInString s) \<longrightarrow> ?k = take ?w s"
    by simp
  have 4: "WriteLine l s line =
      (Returned,
       [Lock linelock]
       @ perform l (BusWrite line RSInstruction
                    # map (\<lambda>c. BusWrite (word_of_int c) RSData) (runes ?k))
       @ [Unlock linelock])"
    using a by (simp add: WriteLine_accepted)
  have "length (runes ?k) \<le> length ?k"
    by (rule length_runes_le)
  with 2 have 5: "length (runes ?k) \<le> ?w"
    by simp
  from 1 2 3 4 5 show "\<exists>kept.
         sliceTo (Sprintf_width (LineWidth l) s) (LineWidth l) = Some kept
         \<and> kept = ?k
         \<and> length kept = ?w
         \<and> (LineWidth l \<le> int (RuneCountInString s) \<longrightarrow> kept = take ?w s)
         \<and> WriteLine l s line =
             (Returned,
              [Lock linelock]
              @ perform l (BusWrite line RSInstruction
                           # map (\<lambda>c. BusWrite (word_of_int c) RSData) (runes kept))
              @ [Unlock linelock])
         \<and> length (runes kept) \<le> ?w"
    by blast
qed (simp_all add: sliceTo_def Sprintf_width_def widthAccepted_def tooLarge_def
      writePadding_def RuneCountInString_def e_acute_twice_def decoderune_def contb_def
      runeError_def replicate_numeral)

theorem WriteLine_bytes_and_runes_witness:
  "0 \<le> LineWidth (example_lcd\<lparr>LineWidth := 4\<rparr>)
   \<and> LineWidth (example_lcd\<lparr>LineWidth := 4\<rparr>) \<le> 10000009
   \<and> LineWidth (example_lcd\<lparr>LineWidth := 4\<rparr>) \<le> int (RuneCountInString ''abcdef'')
   \<and> sliceTo (Sprintf_width 4 ''abcdef'') 4 = Some ''abcd''
   \<and> sliceTo (Sprintf_width 4 (CHR ''a'' # e_acute_twice)) 4
       = Some [CHR '' '', CHR ''a'', CHR 0xC3, CHR 0xA9]
   \<and> WriteLine (example_lcd\<lparr>LineWidth := 4\<rparr>) (CHR ''a'' # e_acute_twice) Line1 =
       (Returned,
        [Lock linelock]
        @ perform (example_lcd\<lparr>LineWidth := 4\<rparr>)
            [BusWrite 0x80 RSInstruction,
             BusWrite 0x20 RSData, BusWrite 0x61 RSData, BusWrite 0xE9 RSData]
        @ [Unlock linelock])"
  using WriteLine_bytes_and_runes [of "example_lcd\<lparr>LineWidth := 4\<rparr>" "''abcdef''" Line1]
    WriteLine_bytes_and_runes [of "example_lcd\<lparr>LineWidth := 4\<rparr>" "CHR ''a'' # e_acute_twice" Line1]
  by (simp add: example_lcd_def RuneCountInString_def e_acute_twice_def decoderune_def
      contb_def Line1_def replicate_numeral)

text \<open>
  A text of four bytes and two runes on a line of width 3: one space is added in front,
  and the bytes kept are not the first three bytes of the text.
\<close>

theorem WriteLine_first_bytes_counterexample:
  "length e_acute_twice = 4
   \<and> take 3 e_acute_twice = [CHR 0xC3, CHR 0xA9, CHR 0xC3]
   \<and> sliceTo (Sprintf_width 3 e_acute_twice) 3 = Some [CHR '' '', CHR 0xC3, CHR 0xA9]
   \<and> WriteLine (example_lcd\<lparr>LineWidth := 3\<rparr>) e_acute_twice Line1 =
       (Returned,
        [Lock linelock]
        @ perform (example_lcd\<lparr>LineWidth := 3\<rparr>)
            [BusWrite 0x80 RSInstruction, BusWrite 0x20 RSData, BusWrite 0xE9 RSData]
        @ [Unlock linelock])"
  by (simp add: WriteLine_def sliceTo_def Sprintf_width_def widthAccepted_def tooLarge_def
      writePadding_def RuneCountInString_def e_acute_twice_def decoderune_def contb_def
      example_lcd_def Line1_def)

section \<open>Properties of the synchronized display\<close>















end
